theory Spec2Isabelle
  imports Complex_Main
begin

section \<open>Data model\<close>

text \<open>
  The tables of \<^verbatim>\<open>src/utils.py\<close> are pandas dataframes. A dataframe is modelled by the
  length of its index and its labelled columns, in order. Column labels are taken to
  be strings, and Python strings are modelled by their bytes.

  A float64 value is a rational, an infinity or NaN. A column has an integer dtype, a
  float dtype, the bool dtype, or a dtype that is not numeric (object, datetime); a
  column of the last kind holds its cells as text, \<open>None\<close> for a missing cell. The
  cells of an integer column are written as integers; the code does no integer
  arithmetic on them.
\<close>

datatype num = Fin rat | NaN | PosInf | NegInf

datatype column =
    Int64Col "int list"
  | Float64Col "num list"
  | BoolCol "bool list"
  | ObjCol "string option list"

record dataframe =
  nrows :: nat
  cols :: "(string \<times> column) list"

text \<open>Exceptions below \<^verbatim>\<open>Exception\<close>, each with the text that \<^verbatim>\<open>str(e)\<close> gives.\<close>

datatype exn = FileNotFoundError string | OtherException string

fun col_len :: "column \<Rightarrow> nat" where
  "col_len (Int64Col xs) = length xs"
| "col_len (Float64Col xs) = length xs"
| "col_len (BoolCol xs) = length xs"
| "col_len (ObjCol xs) = length xs"

text \<open>\<^verbatim>\<open>df.columns\<close> and \<^verbatim>\<open>df.shape\<close>.\<close>

definition columns :: "dataframe \<Rightarrow> string list" where
  "columns df = map fst (cols df)"

definition shape :: "dataframe \<Rightarrow> nat \<times> nat" where
  "shape df = (nrows df, length (cols df))"

text \<open>
  What every dataframe built by pandas satisfies: the column labels that
  \<^verbatim>\<open>read_excel\<close> produces are pairwise distinct (it renames duplicates), and every
  column is as long as the index.
\<close>

definition wf_df :: "dataframe \<Rightarrow> bool" where
  "wf_df df \<longleftrightarrow> distinct (columns df) \<and> list_all (\<lambda>(n, c). col_len c = nrows df) (cols df)"

text \<open>
  \<^verbatim>\<open>df[column_name]\<close> for a label: the column, and \<^verbatim>\<open>KeyError\<close> (whose text is the
  quoted label) when the label is absent.
\<close>

definition getitem :: "dataframe \<Rightarrow> string \<Rightarrow> exn + column" where
  "getitem df column_name =
     (case map_of (cols df) column_name of
        Some series \<Rightarrow> Inr series
      | None \<Rightarrow> Inl (OtherException ([CHR 0x27] @ column_name @ [CHR 0x27])))"

text \<open>
  \<^verbatim>\<open>pd.api.types.is_numeric_dtype\<close>: true for the integer and float dtypes and also for
  bool, false for object.
\<close>

fun is_numeric_dtype :: "column \<Rightarrow> bool" where
  "is_numeric_dtype (Int64Col xs) = True"
| "is_numeric_dtype (Float64Col xs) = True"
| "is_numeric_dtype (BoolCol xs) = True"
| "is_numeric_dtype (ObjCol xs) = False"

subsection \<open>Float arithmetic\<close>

text \<open>
  The code subtracts, adds, multiplies and compares in float64, where every result is
  rounded, and an int64 cell is converted to float64 before it is compared with a
  float. These operations belong to the platform, not to the repository: they are
  parameters, and nothing is assumed of them.
\<close>

record float_ops =
  f_sub :: "num \<Rightarrow> num \<Rightarrow> num"
  f_add :: "num \<Rightarrow> num \<Rightarrow> num"
  f_mul :: "num \<Rightarrow> num \<Rightarrow> num"
  f_lt :: "num \<Rightarrow> num \<Rightarrow> bool"
  f_of_int :: "int \<Rightarrow> num"

text \<open>
  The cells of a numeric column as the floats they are compared as: an integer is
  converted, a boolean is 1 or 0. A mask is only ever built for a numeric column.
\<close>

fun as_float :: "float_ops \<Rightarrow> column \<Rightarrow> num list" where
  "as_float ops (Int64Col xs) = map (f_of_int ops) xs"
| "as_float ops (Float64Col xs) = xs"
| "as_float ops (BoolCol xs) = map (\<lambda>b. if b then Fin 1 else Fin 0) xs"
| "as_float ops (ObjCol xs) = []"

subsection \<open>Boolean row selection\<close>

text \<open>\<^verbatim>\<open>df[mask]\<close>: the rows at which the mask is true, in every column.\<close>

definition select :: "bool list \<Rightarrow> 'a list \<Rightarrow> 'a list" where
  "select keep xs = map snd (filter fst (zip keep xs))"

fun col_select :: "bool list \<Rightarrow> column \<Rightarrow> column" where
  "col_select keep (Int64Col xs) = Int64Col (select keep xs)"
| "col_select keep (Float64Col xs) = Float64Col (select keep xs)"
| "col_select keep (BoolCol xs) = BoolCol (select keep xs)"
| "col_select keep (ObjCol xs) = ObjCol (select keep xs)"

definition filter_rows :: "bool list \<Rightarrow> dataframe \<Rightarrow> dataframe" where
  "filter_rows keep df =
     \<lparr>nrows = length (filter id keep),
      cols = map (\<lambda>(n, c). (n, col_select keep c)) (cols df)\<rparr>"

text \<open>\<^verbatim>\<open>df.empty\<close>: true when any axis has length zero.\<close>

definition empty_df :: "dataframe \<Rightarrow> bool" where
  "empty_df df \<longleftrightarrow> nrows df = 0 \<or> length (cols df) = 0"

subsection \<open>Rendering of non-negative integers\<close>

text \<open>\<^verbatim>\<open>str(n)\<close> and \<^verbatim>\<open>f"{n}"\<close> for a row or column count: its decimal digits.\<close>

definition digit_char :: "nat \<Rightarrow> char" where
  "digit_char k = ''0123456789'' ! k"

fun str_nat :: "nat \<Rightarrow> string" where
  "str_nat n = (if n < 10 then [digit_char n] else str_nat (n div 10) @ [digit_char (n mod 10)])"

declare str_nat.simps [simp del]

section \<open>The helpers of utils.py\<close>

definition get_dataframe_shape :: "dataframe option \<Rightarrow> string" where
  "get_dataframe_shape df =
     (case df of
        Some d \<Rightarrow>
          (let (rows, cols) = shape d
           in ''The DataFrame has '' @ str_nat rows @ '' rows and '' @ str_nat cols @ '' columns.'')
      | None \<Rightarrow> ''DataFrame is not loaded.'')"

text \<open>
  \<^verbatim>\<open>describe\<close> and \<^verbatim>\<open>to_string\<close> are methods of the third-party library; they are
  parameters, over any type \<open>'s\<close> of statistics summaries, and each may raise. An
  exception raised inside a helper leaves the helper: there is no handler.
\<close>

definition get_column_statistics ::
  "(column \<Rightarrow> exn + 's) \<Rightarrow> ('s \<Rightarrow> exn + string) \<Rightarrow> dataframe option \<Rightarrow> string \<Rightarrow> exn + string" where
  "get_column_statistics describe to_string df column_name =
     (case df of
        None \<Rightarrow> Inr ''DataFrame is not loaded.''
      | Some d \<Rightarrow>
          if column_name \<notin> set (columns d)
          then Inr (''Column '' @ [CHR 0x27] @ column_name @ [CHR 0x27] @ '' not found in the DataFrame.'')
          else (case getitem d column_name of
                  Inl e \<Rightarrow> Inl e
                | Inr series \<Rightarrow>
                    (case describe series of
                       Inl e \<Rightarrow> Inl e
                     | Inr stats \<Rightarrow> to_string stats)))"

text \<open>
  \<^verbatim>\<open>quantile\<close> is the library's method on a column; it is a parameter that returns a
  float or raises. The mask compares every cell of the column with the two bounds.
\<close>

definition detect_outliers_iqr ::
  "float_ops \<Rightarrow> (column \<Rightarrow> rat \<Rightarrow> exn + num) \<Rightarrow> dataframe option \<Rightarrow> string \<Rightarrow> exn + string" where
  "detect_outliers_iqr ops quantile df column_name =
     (case df of
        None \<Rightarrow> Inr ''DataFrame is not loaded.''
      | Some d \<Rightarrow>
          if column_name \<notin> set (columns d)
          then Inr (''Column '' @ [CHR 0x27] @ column_name @ [CHR 0x27] @ '' not found in the DataFrame.'')
          else (case getitem d column_name of
                  Inl e \<Rightarrow> Inl e
                | Inr series \<Rightarrow>
                    if is_numeric_dtype series then
                      (case quantile series (1 / 4) of
                         Inl e \<Rightarrow> Inl e
                       | Inr Q1 \<Rightarrow>
                           (case quantile series (3 / 4) of
                              Inl e \<Rightarrow> Inl e
                            | Inr Q3 \<Rightarrow>
                                (let IQR = f_sub ops Q3 Q1;
                                     lower_bound = f_sub ops Q1 (f_mul ops (Fin (3 / 2)) IQR);
                                     upper_bound = f_add ops Q3 (f_mul ops (Fin (3 / 2)) IQR);
                                     outliers = filter_rows
                                       (map (\<lambda>v. f_lt ops v lower_bound \<or> f_lt ops upper_bound v)
                                          (as_float ops series)) d
                                 in if \<not> empty_df outliers
                                    then Inr ('' number of outliers detected in column '' @ [CHR 0x27]
                                              @ column_name @ [CHR 0x27] @ '' (IQR method):'' @ [CHR 0x0A]
                                              @ str_nat (fst (shape outliers)))
                                    else Inr (''No outliers detected in column '' @ [CHR 0x27]
                                              @ column_name @ [CHR 0x27] @ '' (IQR method).''))))
                    else Inr (''Outlier detection (IQR method) is only applicable to numerical columns. ''
                              @ [CHR 0x27] @ column_name @ [CHR 0x27] @ '' is not numerical.'')))"

subsection \<open>Loading a file and running a query\<close>

text \<open>
  \<^verbatim>\<open>df.drop(columns=[label])\<close> returns a new dataframe without the columns of that
  label, and raises \<^verbatim>\<open>KeyError\<close> when the label is absent.
\<close>

definition drop_column :: "string \<Rightarrow> dataframe \<Rightarrow> exn + dataframe" where
  "drop_column label df =
     (if label \<in> set (columns df)
      then Inr (df\<lparr>cols := filter (\<lambda>(n, c). n \<noteq> label) (cols df)\<rparr>)
      else Inl (OtherException ([CHR 0x22] @ ''['' @ [CHR 0x27] @ label @ [CHR 0x27]
                             @ ''] not found in axis'' @ [CHR 0x22])))"

text \<open>\<^verbatim>\<open>str(e)\<close>.\<close>

fun exn_text :: "exn \<Rightarrow> string" where
  "exn_text (FileNotFoundError s) = s"
| "exn_text (OtherException s) = s"

text \<open>
  \<^verbatim>\<open>read_excel\<close> is the library's reader: a parameter that returns a dataframe or
  raises. The body of the \<^verbatim>\<open>try\<close> first, then the two handlers in the order of the
  source.
\<close>

definition load_data_try :: "(string \<Rightarrow> exn + dataframe) \<Rightarrow> string \<Rightarrow> exn + dataframe" where
  "load_data_try read_excel file_path =
     (case read_excel file_path of
        Inl e \<Rightarrow> Inl e
      | Inr df \<Rightarrow>
          if ''Unnamed: 0'' \<in> set (columns df) then drop_column ''Unnamed: 0'' df else Inr df)"

definition load_data ::
  "(string \<Rightarrow> exn + dataframe) \<Rightarrow> string \<Rightarrow> dataframe option \<times> string option" where
  "load_data read_excel file_path =
     (case load_data_try read_excel file_path of
        Inr df \<Rightarrow> (Some df, None)
      | Inl (FileNotFoundError e) \<Rightarrow>
          (None, Some (''Error: The file '' @ [CHR 0x27] @ file_path @ [CHR 0x27] @ '' was not found.''))
      | Inl (OtherException e) \<Rightarrow> (None, Some (''Error loading Excel file: '' @ e)))"

text \<open>
  \<^verbatim>\<open>sqldf\<close> is the embedded query evaluator: a parameter that takes the query and the
  environment of named tables, and returns a table, or \<open>None\<close> for a statement that
  yields no rows (the caller in \<^verbatim>\<open>app.py\<close> tests \<^verbatim>\<open>result is not None\<close>), or raises.
\<close>

type_synonym sql_env = "(string \<times> dataframe option) list"

definition run_pandasql_query ::
  "(string \<Rightarrow> sql_env \<Rightarrow> exn + dataframe option) \<Rightarrow> string \<Rightarrow> dataframe option
     \<Rightarrow> dataframe option \<times> string option" where
  "run_pandasql_query sqldf query df =
     (case sqldf query [(''df'', df)] of
        Inr result \<Rightarrow> (result, None)
      | Inl e \<Rightarrow> (None, Some (''Error running SQL query: '' @ exn_text e)))"

section \<open>The request handler of app.py\<close>

text \<open>
  What the page shows is a list of display events, in order; the text of an event is
  the text passed to the widget (emoji as their UTF-8 bytes). Spinners and input
  widgets show nothing of their own.
\<close>

datatype event =
    Title string | SidebarHeader string | Error string | SidebarSuccess string
  | SidebarSubheader string | SidebarDataframe dataframe | SidebarWrite "string list"
  | Markdown string | Subheader string | Warning string | Info string | Code string
  | Success string | Dataframe dataframe | Write string

definition emoji_chart :: string where
  "emoji_chart = [CHR 0xF0, CHR 0x9F, CHR 0x93, CHR 0x8A]"

definition emoji_cross :: string where
  "emoji_cross = [CHR 0xE2, CHR 0x9D, CHR 0x8C]"

definition emoji_check :: string where
  "emoji_check = [CHR 0xE2, CHR 0x9C, CHR 0x85]"

definition emoji_speech :: string where
  "emoji_speech = [CHR 0xF0, CHR 0x9F, CHR 0x92, CHR 0xAC]"

definition emoji_warning :: string where
  "emoji_warning = [CHR 0xE2, CHR 0x9A, CHR 0xA0, CHR 0xEF, CHR 0xB8, CHR 0x8F]"

definition emoji_sparkles :: string where
  "emoji_sparkles = [CHR 0xE2, CHR 0x9C, CHR 0xA8]"

definition emoji_up :: string where
  "emoji_up = [CHR 0xE2, CHR 0xAC, CHR 0x86, CHR 0xEF, CHR 0xB8, CHR 0x8F]"

text \<open>
  The value that \<^verbatim>\<open>agent_executor.invoke\<close> returns: a dict (its string items and its
  \<^verbatim>\<open>str\<close>), an object with a \<^verbatim>\<open>content\<close> attribute, or anything else (its \<^verbatim>\<open>str\<close>).
\<close>

datatype response =
    DictResponse "(string \<times> string) list" string
  | ContentResponse string
  | OtherResponse string

definition final_response_content :: "response \<Rightarrow> string" where
  "final_response_content response =
     (case response of
        DictResponse items rendering \<Rightarrow>
          (case map_of items ''output'' of Some out \<Rightarrow> out | None \<Rightarrow> rendering)
      | ContentResponse content \<Rightarrow> content
      | OtherResponse rendering \<Rightarrow> rendering)"

text \<open>\<^verbatim>\<open>s.startswith(p)\<close>, and with a tuple of prefixes.\<close>

definition startswith :: "string \<Rightarrow> string \<Rightarrow> bool" where
  "startswith s p \<longleftrightarrow> take (length p) s = p"

definition startswith_any :: "string \<Rightarrow> string list \<Rightarrow> bool" where
  "startswith_any s ps \<longleftrightarrow> list_ex (startswith s) ps"

definition sql_keywords :: "string list" where
  "sql_keywords =
     [''SELECT'', ''PRAGMA'', ''CREATE'', ''INSERT'', ''UPDATE'', ''DELETE'', ''DROP'', ''ALTER'']"

definition msg_specify_column :: string where
  "msg_specify_column = ''Please specify a column to detect outliers in.''"

definition msg_categorical :: string where
  "msg_categorical =
     ''Cannot process numerical statistics for categorical columns. Please specify a numerical column.''"

text \<open>Python truthiness of an optional string: neither \<open>None\<close> nor empty.\<close>

fun truthy :: "string option \<Rightarrow> bool" where
  "truthy None = False"
| "truthy (Some s) = (s \<noteq> [])"

text \<open>
  The externals of the handler: the library's reader, statistics and quantile methods,
  float arithmetic, the query evaluator, \<^verbatim>\<open>str.upper\<close>, and the agent executor, which
  is given the column names of the prompt, the bound tools, the input and the chat
  history, and returns a response or raises.
\<close>

type_synonym tool = "string \<times> (string \<Rightarrow> exn + string)"

type_synonym message = "string \<times> string"

record 's externals =
  lib_read_excel :: "string \<Rightarrow> exn + dataframe"
  lib_describe :: "column \<Rightarrow> exn + 's"
  lib_to_string :: "'s \<Rightarrow> exn + string"
  lib_quantile :: "column \<Rightarrow> rat \<Rightarrow> exn + num"
  lib_float :: float_ops
  lib_sqldf :: "string \<Rightarrow> sql_env \<Rightarrow> exn + dataframe option"
  lib_upper :: "string \<Rightarrow> string"
  lib_agent :: "string \<Rightarrow> tool list \<Rightarrow> string \<Rightarrow> message list \<Rightarrow> exn + response"

text \<open>The dispatch on the final text (the three cases of the source).\<close>

definition dispatch :: "'s externals \<Rightarrow> dataframe \<Rightarrow> string \<Rightarrow> event list" where
  "dispatch L df content =
     (if content = msg_specify_column then [Warning (emoji_warning @ '' '' @ content)]
      else if content = msg_categorical then [Warning (emoji_warning @ '' '' @ content)]
      else if startswith_any (lib_upper L content) sql_keywords then
        [Info ''Generated SQL Query:'', Code content] @
        (let (result, sql_error_message) = run_pandasql_query (lib_sqldf L) content (Some df)
         in if truthy sql_error_message
            then [Error (emoji_cross @ '' '' @ the sql_error_message)]
            else (case result of
                    Some r \<Rightarrow> [Success (emoji_check @ '' Done!''), Dataframe r]
                  | None \<Rightarrow> []))
      else [Write content])"

text \<open>\<^verbatim>\<open>", ".join(names)\<close>.\<close>

fun join_comma :: "string list \<Rightarrow> string" where
  "join_comma [] = []"
| "join_comma [x] = x"
| "join_comma (x # y # ys) = x @ '', '' @ join_comma (y # ys)"

definition python_tools :: "'s externals \<Rightarrow> dataframe \<Rightarrow> tool list" where
  "python_tools L df =
     [(''get_dataframe_shape'', \<lambda>s. Inr (get_dataframe_shape (Some df))),
      (''get_column_statistics'',
         \<lambda>column_name. get_column_statistics (lib_describe L) (lib_to_string L) (Some df) column_name),
      (''detect_outliers_iqr'',
         \<lambda>column_name. detect_outliers_iqr (lib_float L) (lib_quantile L) (Some df) column_name)]"

text \<open>
  A run shows events and ends normally or with an exception that nothing catches.
  The block that answers a question invokes the agent with an empty chat history; when
  the agent raises, nothing more is shown.
\<close>

type_synonym outcome = "event list \<times> exn option"

definition answer :: "'s externals \<Rightarrow> dataframe \<Rightarrow> string \<Rightarrow> outcome" where
  "answer L df user_question =
     (let columns_str = join_comma (columns df)
      in case lib_agent L columns_str (python_tools L df) user_question [] of
           Inl e \<Rightarrow> ([], Some e)
         | Inr response \<Rightarrow>
             ([Markdown (''### '' @ emoji_sparkles @ '' Analysis Result'')]
              @ dispatch L df (final_response_content response), None))"

text \<open>\<^verbatim>\<open>df.head()\<close>: the first five rows.\<close>

fun col_take :: "nat \<Rightarrow> column \<Rightarrow> column" where
  "col_take k (Int64Col xs) = Int64Col (take k xs)"
| "col_take k (Float64Col xs) = Float64Col (take k xs)"
| "col_take k (BoolCol xs) = BoolCol (take k xs)"
| "col_take k (ObjCol xs) = ObjCol (take k xs)"

definition head :: "dataframe \<Rightarrow> dataframe" where
  "head df = \<lparr>nrows = min 5 (nrows df), cols = map (\<lambda>(n, c). (n, col_take 5 c)) (cols df)\<rparr>"

text \<open>
  One run of the page: the uploaded file if any, the text of the question, whether the
  button was pressed, and the API key of the environment if set.
\<close>

record request =
  uploaded_file :: "string option"
  user_question :: string
  button :: bool
  api_key :: "string option"

definition main :: "'s externals \<Rightarrow> request \<Rightarrow> outcome" where
  "main L req =
     (let shown = [Title (emoji_chart @ '' Data Profiling Chatbot with AI''), SidebarHeader ''Upload Data''];
          (df, error_message) =
            (case uploaded_file req of
               Some f \<Rightarrow> load_data (lib_read_excel L) f
             | None \<Rightarrow> (None, None))
      in if truthy error_message then (shown @ [Error (emoji_cross @ '' '' @ the error_message)], None)
         else (case df of
                 Some d \<Rightarrow>
                   (let shown = shown @
                          [SidebarSuccess (emoji_check @ '' Successfully connected to database.''),
                           SidebarSubheader (emoji_chart @ '' Data Overview (First 5 Rows)''),
                           SidebarDataframe (head d),
                           SidebarSubheader ''Column Names:'',
                           SidebarWrite (columns d),
                           Markdown ''--- '',
                           Subheader (emoji_speech @ '' Ask a Question about your Data'')]
                    in if button req then
                         (if user_question req \<noteq> [] then
                            (if \<not> truthy (api_key req)
                             then (shown @ [Warning (emoji_warning
                                     @ '' Please set your OpenAI API key in the `.env` file or as an environment variable.'')],
                                   None)
                             else (let (events, raised) = answer L d (user_question req)
                                   in (shown @ events, raised)))
                          else (shown @ [Warning (emoji_warning @ '' Please enter a question.'')], None))
                       else (shown, None))
               | None \<Rightarrow>
                   (shown @ [Info (emoji_up @ '' Please upload an Excel file to get started.'')], None)))"

section \<open>A concrete table and concrete externals\<close>

text \<open>
  Instances of the externals on which the model can be evaluated. Arithmetic that is
  exact on rationals, with which float64 agrees on the small integers of the table
  below. The quantile by linear interpolation between the nearest ranks, which raises
  \<^verbatim>\<open>TypeError\<close> on a column of bool or object dtype, as the library does (numpy refuses
  to subtract booleans). A summary that counts the cells. Upper-casing of ASCII
  letters. A reader that knows one file. An evaluator that yields no rows for a
  \<^verbatim>\<open>CREATE\<close> statement, raises on an empty query and returns the table otherwise. An
  agent that answers four questions.
\<close>

fun exact_sub :: "num \<Rightarrow> num \<Rightarrow> num" where
  "exact_sub (Fin a) (Fin b) = Fin (a - b)"
| "exact_sub _ _ = NaN"

fun exact_add :: "num \<Rightarrow> num \<Rightarrow> num" where
  "exact_add (Fin a) (Fin b) = Fin (a + b)"
| "exact_add _ _ = NaN"

fun exact_mul :: "num \<Rightarrow> num \<Rightarrow> num" where
  "exact_mul (Fin a) (Fin b) = Fin (a * b)"
| "exact_mul _ _ = NaN"

fun exact_lt :: "num \<Rightarrow> num \<Rightarrow> bool" where
  "exact_lt (Fin a) (Fin b) = (a < b)"
| "exact_lt _ _ = False"

definition exact_ops :: float_ops where
  "exact_ops =
     \<lparr>f_sub = exact_sub, f_add = exact_add, f_mul = exact_mul, f_lt = exact_lt,
      f_of_int = (\<lambda>i. Fin (of_int i))\<rparr>"

fun finite_cells :: "num list \<Rightarrow> rat list" where
  "finite_cells [] = []"
| "finite_cells (Fin x # vs) = x # finite_cells vs"
| "finite_cells (v # vs) = finite_cells vs"

definition interpolate :: "rat list \<Rightarrow> rat \<Rightarrow> num" where
  "interpolate cells q =
     (let xs = sort cells; n = length xs
      in if n = 0 then NaN
         else (let pos = q * of_nat (n - 1);
                   lo = nat \<lfloor>pos\<rfloor>;
                   hi = min (lo + 1) (n - 1)
               in Fin (xs ! lo + (xs ! hi - xs ! lo) * (pos - of_int \<lfloor>pos\<rfloor>))))"

fun quantile_linear :: "column \<Rightarrow> rat \<Rightarrow> exn + num" where
  "quantile_linear (Int64Col xs) q = Inr (interpolate (map of_int xs) q)"
| "quantile_linear (Float64Col xs) q = Inr (interpolate (finite_cells xs) q)"
| "quantile_linear (BoolCol xs) q =
     Inl (OtherException ''numpy boolean subtract, the `-` operator, is not supported'')"
| "quantile_linear (ObjCol xs) q =
     Inl (OtherException ''unsupported operand type(s) for -'')"

definition count_cells :: "column \<Rightarrow> exn + nat" where
  "count_cells series = Inr (col_len series)"

definition render_count :: "nat \<Rightarrow> exn + string" where
  "render_count k = Inr (''count    '' @ str_nat k)"

text \<open>A library in which every statistics and quantile call raises.\<close>

definition failing_describe :: "column \<Rightarrow> exn + nat" where
  "failing_describe series = Inl (OtherException ''describe failed'')"

definition failing_quantile :: "column \<Rightarrow> rat \<Rightarrow> exn + num" where
  "failing_quantile series q = Inl (OtherException ''quantile failed'')"

definition ascii_upper :: "string \<Rightarrow> string" where
  "ascii_upper s =
     map (\<lambda>c. let k = (of_char c :: nat) in if 97 \<le> k \<and> k \<le> 122 then char_of (k - 32) else c) s"

definition sales_raw :: dataframe where
  "sales_raw =
     \<lparr>nrows = 5,
      cols = [(''Unnamed: 0'', Int64Col [0, 1, 2, 3, 4]),
              (''price'', Int64Col [10, 100, 12, 11, 13]),
              (''city'', ObjCol [Some ''Oslo'', Some ''Rome'', None, Some ''Oslo'', Some ''Lima'']),
              (''active'', BoolCol [True, False, True, True, False])]\<rparr>"

definition sales :: dataframe where
  "sales =
     \<lparr>nrows = 5,
      cols = [(''price'', Int64Col [10, 100, 12, 11, 13]),
              (''city'', ObjCol [Some ''Oslo'', Some ''Rome'', None, Some ''Oslo'', Some ''Lima'']),
              (''active'', BoolCol [True, False, True, True, False])]\<rparr>"

definition demo_read_excel :: "string \<Rightarrow> exn + dataframe" where
  "demo_read_excel file_path =
     (if file_path = ''sales.xlsx'' then Inr sales_raw
      else if file_path = ''notes.txt'' then Inl (OtherException ''File is not a zip file'')
      else Inl (FileNotFoundError (''No such file or directory: '' @ file_path)))"

definition demo_sqldf :: "string \<Rightarrow> sql_env \<Rightarrow> exn + dataframe option" where
  "demo_sqldf query env =
     (if query = [] then Inl (OtherException ''empty query'')
      else if startswith query ''CREATE'' then Inr None
      else (case map_of env ''df'' of
              Some t \<Rightarrow> Inr t
            | None \<Rightarrow> Inl (OtherException ''no such table: df'')))"

definition demo_agent :: "string \<Rightarrow> tool list \<Rightarrow> string \<Rightarrow> message list \<Rightarrow> exn + response" where
  "demo_agent columns_str tools input chat_history =
     (if chat_history \<noteq> [] then Inr (ContentResponse ''I remember.'')
      else if input = ''any outliers?''
        then Inr (DictResponse [(''input'', input),
                    (''output'', ''Please specify a column to detect outliers in.'')] ''{}'')
      else if input = ''mean of city?''
        then Inr (ContentResponse
                    ''Cannot process numerical statistics for categorical columns. Please specify a numerical column.'')
      else if input = ''how many rows?'' then Inr (OtherResponse ''There are 5 rows.'')
      else Inr (DictResponse [(''input'', input), (''output'', ''select * from df'')] ''{}''))"

definition demo :: "nat externals" where
  "demo =
     \<lparr>lib_read_excel = demo_read_excel, lib_describe = count_cells, lib_to_string = render_count,
      lib_quantile = quantile_linear, lib_float = exact_ops, lib_sqldf = demo_sqldf,
      lib_upper = ascii_upper, lib_agent = demo_agent\<rparr>"

definition demo_request :: request where
  "demo_request =
     \<lparr>uploaded_file = Some ''sales.xlsx'', user_question = ''show everything'', button = True,
      api_key = Some ''sk-test''\<rparr>"

text \<open>An evaluator that refuses every environment other than the single table \<^verbatim>\<open>df\<close>.\<close>

definition demo_sqldf_strict :: "string \<Rightarrow> sql_env \<Rightarrow> exn + dataframe option" where
  "demo_sqldf_strict query env =
     (if map fst env = [''df''] then demo_sqldf query env
      else Inl (OtherException ''unexpected tables''))"

text \<open>Reading a decimal rendering back.\<close>

definition digit_val :: "char \<Rightarrow> nat" where
  "digit_val c = of_char c - 48"

definition parse_nat :: "string \<Rightarrow> nat" where
  "parse_nat s = foldl (\<lambda>a c. 10 * a + digit_val c) 0 s"

section \<open>Auxiliary facts\<close>

lemma digit_val_digit_char: "k < 10 \<Longrightarrow> digit_val (digit_char k) = k"
proof -
  assume "k < 10"
  then have "k \<in> {0, 1, 2, 3, 4, 5, 6, 7, 8, 9}" by auto
  then show ?thesis by (auto simp: digit_val_def digit_char_def)
qed

lemma parse_nat_snoc: "parse_nat (s @ [c]) = 10 * parse_nat s + digit_val c"
  by (simp add: parse_nat_def)

lemma parse_str_nat: "parse_nat (str_nat n) = n"
proof (induction n rule: str_nat.induct)
  case (1 n)
  show ?case
  proof (cases "n < 10")
    case True
    then show ?thesis
      by (subst str_nat.simps) (simp add: parse_nat_def digit_val_digit_char)
  next
    case False
    then have "parse_nat (str_nat (n div 10)) = n div 10"
      using "1.IH" by simp
    with False show ?thesis
      by (subst str_nat.simps) (simp add: parse_nat_snoc digit_val_digit_char)
  qed
qed

lemma str_nat_inj: "str_nat m = str_nat n \<Longrightarrow> m = n"
  by (metis parse_str_nat)

lemma getitem_present:
  assumes "distinct (columns df)" and "(c, series) \<in> set (cols df)"
  shows "getitem df c = Inr series"
  using assms by (simp add: getitem_def columns_def)

lemma getitem_in_columns:
  assumes "c \<in> set (columns df)"
  shows "\<exists>series. getitem df c = Inr series \<and> (c, series) \<in> set (cols df)"
proof (cases "map_of (cols df) c")
  case None
  then show ?thesis
    using assms by (simp add: columns_def map_of_eq_None_iff)
next
  case (Some series)
  then show ?thesis
    by (auto simp: getitem_def dest: map_of_SomeD)
qed

lemma as_float_length:
  assumes "is_numeric_dtype series"
  shows "length (as_float ops series) = col_len series"
  using assms by (cases series) simp_all

lemma count_true_map: "length (filter id (map P xs)) = length (filter P xs)"
  by (induction xs) auto

lemma count_flagged_rows:
  "length (filter P xs) = length (filter (\<lambda>i. P (xs ! i)) [0..<length xs])"
proof -
  have "length (filter P xs) = card {i. i < length xs \<and> P (xs ! i)}"
    by (rule length_filter_conv_card)
  also have "\<dots> = card ({i. P (xs ! i)} \<inter> set [0..<length xs])"
    by (rule arg_cong [where f = card]) auto
  also have "\<dots> = length (filter (\<lambda>i. P (xs ! i)) [0..<length xs])"
    by (simp add: distinct_length_filter)
  finally show ?thesis .
qed

lemma nrows_filter_rows: "nrows (filter_rows keep df) = length (filter id keep)"
  by (simp add: filter_rows_def)

lemma ncols_filter_rows: "length (cols (filter_rows keep df)) = length (cols df)"
  by (simp add: filter_rows_def)

text \<open>The rows that a mask keeps are the rows at the indices where it is true.\<close>

lemma select_conv_nths: "select keep xs = nths xs {i. i < length keep \<and> keep ! i}"
proof (induction keep arbitrary: xs)
  case Nil
  show ?case by (simp add: select_def)
next
  case (Cons k ks)
  show ?case
  proof (cases xs)
    case Nil
    then show ?thesis by (simp add: select_def)
  next
    case (Cons y ys)
    have "{j. Suc j \<in> {i. i < length (k # ks) \<and> (k # ks) ! i}} = {i. i < length ks \<and> ks ! i}"
      by auto
    moreover have "select ks ys = nths ys {i. i < length ks \<and> ks ! i}"
      by (rule Cons.IH)
    ultimately show ?thesis
      using Cons by (simp add: select_def nths_Cons)
  qed
qed

lemma wf_col_len:
  assumes "wf_df df" and "(c, series) \<in> set (cols df)"
  shows "col_len series = nrows df"
  using assms by (auto simp: wf_df_def list_all_iff)

text \<open>
  The numeric branch of \<^verbatim>\<open>detect_outliers_iqr\<close>, for any float arithmetic and any
  quantile: an exception of either quantile call leaves the helper; otherwise Q1 and Q3
  are the two quantiles, the flagged rows are exactly the rows whose cell, as a float, is
  strictly below \<open>Q1 - 1.5 (Q3 - Q1)\<close> or strictly above \<open>Q3 + 1.5 (Q3 - Q1)\<close>, and the
  message ends with their number or says that there is none.
\<close>

lemma numeric_branch:
  assumes wf: "wf_df df"
    and col: "(column_name, series) \<in> set (cols df)"
    and num: "is_numeric_dtype series"
  shows "detect_outliers_iqr ops quantile (Some df) column_name =
    (case quantile series (1 / 4) of
       Inl e \<Rightarrow> Inl e
     | Inr Q1 \<Rightarrow>
         (case quantile series (3 / 4) of
            Inl e \<Rightarrow> Inl e
          | Inr Q3 \<Rightarrow>
              (let lo = f_sub ops Q1 (f_mul ops (Fin (3 / 2)) (f_sub ops Q3 Q1));
                   hi = f_add ops Q3 (f_mul ops (Fin (3 / 2)) (f_sub ops Q3 Q1));
                   flagged = filter (\<lambda>i. f_lt ops (as_float ops series ! i) lo
                                          \<or> f_lt ops hi (as_float ops series ! i)) [0..<nrows df]
               in if flagged = []
                  then Inr (''No outliers detected in column '' @ [CHR 0x27] @ column_name
                            @ [CHR 0x27] @ '' (IQR method).'')
                  else Inr ('' number of outliers detected in column '' @ [CHR 0x27] @ column_name
                            @ [CHR 0x27] @ '' (IQR method):'' @ [CHR 0x0A] @ str_nat (length flagged)))))"
proof -
  let ?xs = "as_float ops series"
  have len: "length ?xs = nrows df"
    using wf_col_len [OF wf col] as_float_length [OF num] by simp
  have get: "getitem df column_name = Inr series"
    using getitem_present [OF _ col] wf by (simp add: wf_df_def)
  have present: "column_name \<in> set (columns df)"
    using col by (force simp: columns_def)
  have ne: "cols df \<noteq> []"
    using col by auto
  have cnt: "length (filter id (map P ?xs)) = length (filter (\<lambda>i. P (?xs ! i)) [0..<nrows df])" for P
    using count_flagged_rows [of P ?xs] len by (simp add: count_true_map)
  have rows: "fst (shape (filter_rows (map (\<lambda>v. f_lt ops v lo \<or> f_lt ops hi v) ?xs) df))
      = length (filter (\<lambda>i. f_lt ops (?xs ! i) lo \<or> f_lt ops hi (?xs ! i)) [0..<nrows df])" for lo hi
    by (simp only: shape_def fst_conv nrows_filter_rows cnt)
  have empty: "empty_df (filter_rows (map (\<lambda>v. f_lt ops v lo \<or> f_lt ops hi v) ?xs) df)
      \<longleftrightarrow> filter (\<lambda>i. f_lt ops (?xs ! i) lo \<or> f_lt ops hi (?xs ! i)) [0..<nrows df] = []" for lo hi
    using rows [of lo hi] ne by (simp only: empty_df_def shape_def fst_conv ncols_filter_rows length_0_conv) simp
  show ?thesis
    unfolding detect_outliers_iqr_def Let_def
    by (simp only: option.case get present num sum.case if_True rows empty not_not split: sum.splits) simp
qed

text \<open>On the integer columns of the concrete table the quantile returns.\<close>

lemma numeric_branch_on_integers:
  "detect_outliers_iqr exact_ops quantile_linear (Some sales) ''price''
     = Inr ('' number of outliers detected in column '' @ [CHR 0x27] @ ''price'' @ [CHR 0x27]
            @ '' (IQR method):'' @ [CHR 0x0A] @ ''1'')
   \<and> detect_outliers_iqr exact_ops quantile_linear (Some sales_raw) ''Unnamed: 0''
     = Inr (''No outliers detected in column '' @ [CHR 0x27] @ ''Unnamed: 0'' @ [CHR 0x27]
            @ '' (IQR method).'')"
proof -
  have wf: "wf_df sales" and wf': "wf_df sales_raw"
    by code_simp+
  have c1: "(''price'', Int64Col [10, 100, 12, 11, 13]) \<in> set (cols sales)"
    by (simp add: sales_def)
  have c2: "(''Unnamed: 0'', Int64Col [0, 1, 2, 3, 4]) \<in> set (cols sales_raw)"
    by (simp add: sales_raw_def)
  have r1: "detect_outliers_iqr exact_ops quantile_linear (Some sales) ''price''
     = Inr ('' number of outliers detected in column '' @ [CHR 0x27] @ ''price'' @ [CHR 0x27]
            @ '' (IQR method):'' @ [CHR 0x0A] @ ''1'')"
    unfolding numeric_branch [OF wf c1 is_numeric_dtype.simps(1) [THEN iffD2, OF TrueI]] by code_simp
  have r2: "detect_outliers_iqr exact_ops quantile_linear (Some sales_raw) ''Unnamed: 0''
     = Inr (''No outliers detected in column '' @ [CHR 0x27] @ ''Unnamed: 0'' @ [CHR 0x27]
            @ '' (IQR method).'')"
    unfolding numeric_branch [OF wf' c2 is_numeric_dtype.simps(1) [THEN iffD2, OF TrueI]] by code_simp
  show ?thesis
    using r1 r2 by simp
qed

lemma drop_column_present:
  assumes "label \<in> set (columns df)"
  shows "drop_column label df = Inr (df\<lparr>cols := filter (\<lambda>(n, c). n \<noteq> label) (cols df)\<rparr>)"
  using assms by (simp add: drop_column_def)

lemma filter_absent_label:
  assumes "label \<notin> set (map fst xs)"
  shows "filter (\<lambda>(n, c). n \<noteq> label) xs = xs"
  using assms by (induction xs) auto

lemma load_data_try_success:
  assumes "read_excel file_path = Inr raw"
  shows "load_data_try read_excel file_path
           = Inr (raw\<lparr>cols := filter (\<lambda>(n, c). n \<noteq> ''Unnamed: 0'') (cols raw)\<rparr>)"
proof (cases "''Unnamed: 0'' \<in> set (columns raw)")
  case True
  then show ?thesis
    using assms by (simp add: load_data_try_def drop_column_present)
next
  case False
  then have "filter (\<lambda>(n, c). n \<noteq> ''Unnamed: 0'') (cols raw) = cols raw"
    by (simp add: filter_absent_label columns_def)
  with False show ?thesis
    using assms by (simp add: load_data_try_def)
qed

lemma load_data_try_failure:
  assumes "read_excel file_path = Inl e"
  shows "load_data_try read_excel file_path = Inl e"
  using assms by (simp add: load_data_try_def)

text \<open>Dropping a column keeps a table well formed, so a loaded table is well formed.\<close>

lemma drop_column_wf:
  assumes "wf_df df"
  shows "wf_df (df\<lparr>cols := filter (\<lambda>(n, c). n \<noteq> label) (cols df)\<rparr>)"
  using assms by (auto simp: wf_df_def columns_def list_all_iff distinct_map_filter)

lemma load_data_wf:
  assumes "read_excel file_path = Inr raw" and "wf_df raw"
    and "load_data read_excel file_path = (Some df, e)"
  shows "wf_df df"
proof -
  have "load_data read_excel file_path
          = (Some (raw\<lparr>cols := filter (\<lambda>(n, c). n \<noteq> ''Unnamed: 0'') (cols raw)\<rparr>), None)"
    using load_data_try_success [of read_excel file_path raw] assms(1) by (simp add: load_data_def)
  with assms(3) have "df = raw\<lparr>cols := filter (\<lambda>(n, c). n \<noteq> ''Unnamed: 0'') (cols raw)\<rparr>"
    by simp
  then show ?thesis
    using drop_column_wf [OF assms(2)] by simp
qed

lemma startswith_iff: "startswith s p \<longleftrightarrow> (\<exists>rest. s = p @ rest)"
proof
  assume "startswith s p"
  then have "s = p @ drop (length p) s"
    by (metis append_take_drop_id startswith_def)
  then show "\<exists>rest. s = p @ rest" ..
next
  assume "\<exists>rest. s = p @ rest"
  then show "startswith s p"
    by (auto simp: startswith_def)
qed

lemma startswith_any_iff:
  "startswith_any s ps \<longleftrightarrow> (\<exists>k \<in> set ps. \<exists>rest. s = k @ rest)"
  by (simp add: startswith_any_def list_ex_iff startswith_iff)

lemma sql_events:
  "(let (result, sql_error_message) = run_pandasql_query sqldf query df
    in if truthy sql_error_message
       then [Error (emoji_cross @ '' '' @ the sql_error_message)]
       else (case result of
               Some r \<Rightarrow> [Success (emoji_check @ '' Done!''), Dataframe r]
             | None \<Rightarrow> []))
   = (case sqldf query [(''df'', df)] of
        Inl e \<Rightarrow> [Error (emoji_cross @ '' Error running SQL query: '' @ exn_text e)]
      | Inr None \<Rightarrow> []
      | Inr (Some r) \<Rightarrow> [Success (emoji_check @ '' Done!''), Dataframe r])"
  by (simp add: run_pandasql_query_def split: sum.splits option.splits)

lemma python_tools_sqldf: "python_tools (L\<lparr>lib_sqldf := sq\<rparr>) df = python_tools L df"
  by (simp add: python_tools_def)

lemma dispatch_sqldf:
  assumes "\<And>query. sq query [(''df'', Some df)] = lib_sqldf L query [(''df'', Some df)]"
  shows "dispatch (L\<lparr>lib_sqldf := sq\<rparr>) df content = dispatch L df content"
  using assms by (simp add: dispatch_def run_pandasql_query_def)

lemma answer_sqldf:
  assumes "\<And>query. sq query [(''df'', Some df)] = lib_sqldf L query [(''df'', Some df)]"
  shows "answer (L\<lparr>lib_sqldf := sq\<rparr>) df question = answer L df question"
  using dispatch_sqldf [of sq df L] assms
  by (simp add: answer_def python_tools_sqldf split: sum.splits)

lemma load_data_error_none:
  assumes "load_data read_excel f = (Some d, err)"
  shows "err = None"
  using assms by (auto simp: load_data_def split: sum.splits exn.splits)

lemma main_cong:
  assumes rd: "lib_read_excel L' = lib_read_excel L"
    and ans: "\<And>f d q. uploaded_file req = Some f \<Longrightarrow> load_data (lib_read_excel L) f = (Some d, None)
                \<Longrightarrow> answer L' d q = answer L d q"
  shows "main L' req = main L req"
proof (cases "uploaded_file req")
  case None
  then show ?thesis by (simp add: main_def Let_def)
next
  case (Some f)
  obtain df err where ld: "load_data (lib_read_excel L) f = (df, err)"
    by (cases "load_data (lib_read_excel L) f")
  show ?thesis
  proof (cases df)
    case None
    then show ?thesis using Some ld rd by (simp add: main_def Let_def)
  next
    case d: (Some d)
    have "err = None"
      using load_data_error_none [of "lib_read_excel L" f d err] ld d by simp
    then have "answer L' d q = answer L d q" for q
      using ans [OF Some] ld d by simp
    then show ?thesis using Some ld d rd by (simp add: main_def Let_def)
  qed
qed

text \<open>
  The agent is only invoked with an empty chat history: an agent that differs from the
  given one on other histories gives the same run.
\<close>

lemma agent_sees_empty_history:
  assumes "\<And>columns_str tools input. ag columns_str tools input [] = lib_agent L columns_str tools input []"
  shows "main (L\<lparr>lib_agent := ag\<rparr>) req = main L req"
proof (rule main_cong)
  show "lib_read_excel (L\<lparr>lib_agent := ag\<rparr>) = lib_read_excel L" by simp
next
  fix f d q
  have "python_tools (L\<lparr>lib_agent := ag\<rparr>) d = python_tools L d"
    by (simp add: python_tools_def)
  moreover have "dispatch (L\<lparr>lib_agent := ag\<rparr>) d content = dispatch L d content" for content
    by (simp add: dispatch_def)
  ultimately show "answer (L\<lparr>lib_agent := ag\<rparr>) d q = answer L d q"
    using assms by (simp add: answer_def split: sum.splits)
qed

lemma if_chain: "(if a then w else if b then w else r) = (if a \<or> b then w else r)"
  by simp

lemma main_answers:
  assumes "uploaded_file req = Some f"
    and "load_data (lib_read_excel L) f = (Some d, None)"
    and "button req" and "user_question req \<noteq> []" and "truthy (api_key req)"
  shows "main L req = (fst (main L (req\<lparr>button := False\<rparr>)) @ fst (answer L d (user_question req)),
                       snd (answer L d (user_question req)))"
  using assms by (simp add: main_def Let_def split_beta)

lemma demo_run_ready:
  "uploaded_file (demo_request\<lparr>user_question := q\<rparr>) = Some ''sales.xlsx''"
  "load_data (lib_read_excel demo) ''sales.xlsx'' = (Some sales, None)"
  "button (demo_request\<lparr>user_question := q\<rparr>)"
  "truthy (api_key (demo_request\<lparr>user_question := q\<rparr>))"
  by (simp_all add: demo_request_def demo_def load_data_def load_data_try_def demo_read_excel_def
      drop_column_def columns_def sales_raw_def sales_def)

section \<open>Properties of the helpers\<close>

text \<open>
  C5. For a table with R rows and C columns \<^verbatim>\<open>get_dataframe_shape\<close> returns
  "The DataFrame has R rows and C columns." with R and C in decimal, and for \<open>None\<close> it
  returns "DataFrame is not loaded.".
\<close>

theorem get_dataframe_shape_message:
  "get_dataframe_shape (Some df) =
     ''The DataFrame has '' @ str_nat (nrows df) @ '' rows and ''
       @ str_nat (length (columns df)) @ '' columns.''
   \<and> get_dataframe_shape None = ''DataFrame is not loaded.''"
  by (simp add: get_dataframe_shape_def shape_def columns_def)

theorem get_dataframe_shape_message_witness:
  "get_dataframe_shape (Some sales) = ''The DataFrame has 5 rows and 3 columns.''
   \<and> get_dataframe_shape None = ''DataFrame is not loaded.''"
proof -
  have "str_nat (nrows sales) = ''5''" and "str_nat (length (columns sales)) = ''3''"
    by code_simp+
  then show ?thesis
    using get_dataframe_shape_message [of sales] by simp
qed

text \<open>
  C4. For a table as the library builds it and a column of it,
  \<^verbatim>\<open>get_column_statistics\<close> is \<^verbatim>\<open>describe\<close> on that column followed by
  \<^verbatim>\<open>to_string\<close>, for every \<^verbatim>\<open>describe\<close> and every rendering: it returns the
  rendering of the statistics, and raises only what one of the two raises.
\<close>

theorem get_column_statistics_delegates:
  assumes "wf_df df" and "(column_name, series) \<in> set (cols df)"
  shows "get_column_statistics describe to_string (Some df) column_name =
           (case describe series of Inl e \<Rightarrow> Inl e | Inr stats \<Rightarrow> to_string stats)"
proof -
  have "getitem df column_name = Inr series"
    using getitem_present [of df column_name series] assms by (simp add: wf_df_def)
  moreover have "column_name \<in> set (columns df)"
    using assms(2) by (force simp: columns_def)
  ultimately show ?thesis
    by (simp add: get_column_statistics_def)
qed

theorem get_column_statistics_delegates_witness:
  "wf_df sales \<and> (''city'', ObjCol [Some ''Oslo'', Some ''Rome'', None, Some ''Oslo'', Some ''Lima'']) \<in> set (cols sales)
   \<and> get_column_statistics count_cells render_count (Some sales) ''city'' = Inr ''count    5''
   \<and> get_column_statistics failing_describe render_count (Some sales) ''city''
        = Inl (OtherException ''describe failed'')"
proof -
  have wf: "wf_df sales" by code_simp
  have col: "(''city'', ObjCol [Some ''Oslo'', Some ''Rome'', None, Some ''Oslo'', Some ''Lima'']) \<in> set (cols sales)"
    by (simp add: sales_def)
  have a: "(case count_cells (ObjCol [Some ''Oslo'', Some ''Rome'', None, Some ''Oslo'', Some ''Lima'']) of
              Inl e \<Rightarrow> Inl e | Inr stats \<Rightarrow> render_count stats) = Inr ''count    5''"
    by code_simp
  have b: "(case failing_describe (ObjCol [Some ''Oslo'', Some ''Rome'', None, Some ''Oslo'', Some ''Lima'']) of
              Inl e \<Rightarrow> Inl e | Inr stats \<Rightarrow> render_count stats) = Inl (OtherException ''describe failed'')"
    by (simp add: failing_describe_def)
  show ?thesis
    using get_column_statistics_delegates [OF wf col, of count_cells render_count]
      get_column_statistics_delegates [OF wf col, of failing_describe render_count] wf col a b
    by simp
qed

text \<open>
  C1. A column of bool dtype is numeric for \<^verbatim>\<open>is_numeric_dtype\<close>, so
  \<^verbatim>\<open>detect_outliers_iqr\<close> takes the numeric branch on it; there the library's quantile
  raises, and the helper raises with it instead of returning one of its two messages.
\<close>

theorem detect_outliers_iqr_bool_raises:
  assumes wf: "wf_df df"
    and col: "(column_name, BoolCol bs) \<in> set (cols df)"
    and raises: "quantile (BoolCol bs) (1 / 4) = Inl e"
  shows "is_numeric_dtype (BoolCol bs)
         \<and> detect_outliers_iqr ops quantile (Some df) column_name = Inl e"
proof -
  have num: "is_numeric_dtype (BoolCol bs)"
    by simp
  show ?thesis
    using raises by (simp add: numeric_branch [OF wf col num])
qed

theorem detect_outliers_iqr_bool_raises_witness:
  "wf_df sales
   \<and> (''active'', BoolCol [True, False, True, True, False]) \<in> set (cols sales)
   \<and> quantile_linear (BoolCol [True, False, True, True, False]) (1 / 4)
        = Inl (OtherException ''numpy boolean subtract, the `-` operator, is not supported'')
   \<and> is_numeric_dtype (BoolCol [True, False, True, True, False])
   \<and> detect_outliers_iqr exact_ops quantile_linear (Some sales) ''active''
        = Inl (OtherException ''numpy boolean subtract, the `-` operator, is not supported'')"
proof -
  have wf: "wf_df sales"
    by code_simp
  have col: "(''active'', BoolCol [True, False, True, True, False]) \<in> set (cols sales)"
    by (simp add: sales_def)
  have raises: "quantile_linear (BoolCol [True, False, True, True, False]) (1 / 4)
        = Inl (OtherException ''numpy boolean subtract, the `-` operator, is not supported'')"
    by simp
  show ?thesis
    using detect_outliers_iqr_bool_raises [where df = sales and column_name = "''active''"
        and bs = "[True, False, True, True, False]" and quantile = quantile_linear
        and e = "OtherException ''numpy boolean subtract, the `-` operator, is not supported''"
        and ops = exact_ops]
      wf col raises
    by (simp only: simp_thms is_numeric_dtype.simps)
qed

text \<open>
  C10. On their guarded branches \<^verbatim>\<open>get_column_statistics\<close> and
  \<^verbatim>\<open>detect_outliers_iqr\<close> return a message and do not raise, whatever the library
  calls would do, also when each of them would raise: "DataFrame is not loaded." for
  \<open>None\<close>, the message that the column was not found for a label that is not among the
  columns, and, for \<^verbatim>\<open>detect_outliers_iqr\<close> on a column that is not numeric, the
  message that the method is only applicable to numerical columns.
\<close>

theorem helper_guards:
  "get_column_statistics describe to_string None column_name = Inr ''DataFrame is not loaded.''
   \<and> detect_outliers_iqr ops quantile None column_name = Inr ''DataFrame is not loaded.''
   \<and> (column_name \<notin> set (columns df) \<longrightarrow>
        get_column_statistics describe to_string (Some df) column_name
          = Inr (''Column '' @ [CHR 0x27] @ column_name @ [CHR 0x27] @ '' not found in the DataFrame.'')
        \<and> detect_outliers_iqr ops quantile (Some df) column_name
          = Inr (''Column '' @ [CHR 0x27] @ column_name @ [CHR 0x27] @ '' not found in the DataFrame.''))
   \<and> (wf_df df \<and> (column_name, series) \<in> set (cols df) \<and> \<not> is_numeric_dtype series \<longrightarrow>
        detect_outliers_iqr ops quantile (Some df) column_name
          = Inr (''Outlier detection (IQR method) is only applicable to numerical columns. ''
                 @ [CHR 0x27] @ column_name @ [CHR 0x27] @ '' is not numerical.''))"
proof -
  have present: "getitem df column_name = Inr series \<and> column_name \<in> set (columns df)"
    if "wf_df df" and "(column_name, series) \<in> set (cols df)"
    using that getitem_present [of df column_name series] by (force simp: wf_df_def columns_def)
  show ?thesis
    using present by (simp add: get_column_statistics_def detect_outliers_iqr_def)
qed

theorem helper_guards_witness:
  "get_column_statistics failing_describe render_count None ''zip'' = Inr ''DataFrame is not loaded.''
   \<and> detect_outliers_iqr exact_ops failing_quantile None ''zip'' = Inr ''DataFrame is not loaded.''
   \<and> ''zip'' \<notin> set (columns sales)
   \<and> get_column_statistics failing_describe render_count (Some sales) ''zip''
        = Inr (''Column '' @ [CHR 0x27] @ ''zip'' @ [CHR 0x27] @ '' not found in the DataFrame.'')
   \<and> detect_outliers_iqr exact_ops failing_quantile (Some sales) ''zip''
        = Inr (''Column '' @ [CHR 0x27] @ ''zip'' @ [CHR 0x27] @ '' not found in the DataFrame.'')
   \<and> wf_df sales
   \<and> (''city'', ObjCol [Some ''Oslo'', Some ''Rome'', None, Some ''Oslo'', Some ''Lima'']) \<in> set (cols sales)
   \<and> \<not> is_numeric_dtype (ObjCol [Some ''Oslo'', Some ''Rome'', None, Some ''Oslo'', Some ''Lima''])
   \<and> detect_outliers_iqr exact_ops failing_quantile (Some sales) ''city''
        = Inr (''Outlier detection (IQR method) is only applicable to numerical columns. ''
               @ [CHR 0x27] @ ''city'' @ [CHR 0x27] @ '' is not numerical.'')"
proof -
  have absent: "''zip'' \<notin> set (columns sales)"
    by (simp add: columns_def sales_def)
  have wf: "wf_df sales"
    by code_simp
  have col: "(''city'', ObjCol [Some ''Oslo'', Some ''Rome'', None, Some ''Oslo'', Some ''Lima'']) \<in> set (cols sales)"
    by (simp add: sales_def)
  have obj: "\<not> is_numeric_dtype (ObjCol [Some ''Oslo'', Some ''Rome'', None, Some ''Oslo'', Some ''Lima''])"
    by simp
  show ?thesis
    using helper_guards [of failing_describe render_count "''zip''" exact_ops failing_quantile sales]
      helper_guards [of failing_describe render_count "''city''" exact_ops failing_quantile sales
        "ObjCol [Some ''Oslo'', Some ''Rome'', None, Some ''Oslo'', Some ''Lima'']"]
      absent wf col obj
    by simp
qed

section \<open>Properties of loading and querying\<close>

text \<open>
  C9. When the reader succeeds, \<^verbatim>\<open>load_data\<close> returns a table that has no column
  labelled "Unnamed: 0"; its rows are those of the table read and its columns are those
  of the table read with another label, unchanged and in the same order.
\<close>

theorem load_data_drops_unnamed:
  assumes "read_excel file_path = Inr raw"
  shows "\<exists>df. load_data read_excel file_path = (Some df, None)
           \<and> ''Unnamed: 0'' \<notin> set (columns df)
           \<and> nrows df = nrows raw
           \<and> cols df = filter (\<lambda>(n, c). n \<noteq> ''Unnamed: 0'') (cols raw)"
proof -
  let ?df = "raw\<lparr>cols := filter (\<lambda>(n, c). n \<noteq> ''Unnamed: 0'') (cols raw)\<rparr>"
  have "load_data read_excel file_path = (Some ?df, None)"
    using load_data_try_success [of read_excel file_path raw] assms by (simp add: load_data_def)
  moreover have "''Unnamed: 0'' \<notin> set (columns ?df)"
    by (auto simp: columns_def)
  ultimately show ?thesis
    by (intro exI [of _ ?df]) simp
qed

theorem load_data_drops_unnamed_witness:
  "demo_read_excel ''sales.xlsx'' = Inr sales_raw
   \<and> ''Unnamed: 0'' \<in> set (columns sales_raw)
   \<and> (\<exists>df. load_data demo_read_excel ''sales.xlsx'' = (Some df, None)
           \<and> ''Unnamed: 0'' \<notin> set (columns df)
           \<and> nrows df = 5
           \<and> map fst (cols df) = [''price'', ''city'', ''active''])"
proof -
  have r: "demo_read_excel ''sales.xlsx'' = Inr sales_raw"
    by (simp add: demo_read_excel_def)
  have "''Unnamed: 0'' \<in> set (columns sales_raw)"
    by (simp add: columns_def sales_raw_def)
  moreover have "nrows sales_raw = 5"
    and "map fst (filter (\<lambda>(n, c). n \<noteq> ''Unnamed: 0'') (cols sales_raw)) = [''price'', ''city'', ''active'']"
    by (simp_all add: sales_raw_def)
  ultimately show ?thesis
    using load_data_drops_unnamed [of demo_read_excel "''sales.xlsx''" sales_raw] r by auto
qed

text \<open>
  C3 as stated fails for \<^verbatim>\<open>run_pandasql_query\<close>: when the evaluator returns nothing for
  a statement, both components of the pair are \<open>None\<close>.
\<close>

theorem run_pandasql_query_both_none:
  "fst (run_pandasql_query demo_sqldf ''CREATE TABLE t AS SELECT * FROM df'' (Some sales)) = None
   \<and> snd (run_pandasql_query demo_sqldf ''CREATE TABLE t AS SELECT * FROM df'' (Some sales)) = None"
  by (simp add: run_pandasql_query_def demo_sqldf_def startswith_def)

text \<open>
  C3, amended. Every exception raised inside \<^verbatim>\<open>load_data\<close> and
  \<^verbatim>\<open>run_pandasql_query\<close> is turned into a pair. \<^verbatim>\<open>load_data\<close> returns the table
  with \<open>None\<close> on success, \<open>None\<close> with the message naming the file for
  \<^verbatim>\<open>FileNotFoundError\<close>, and \<open>None\<close> with a message that ends with the text of the
  exception otherwise, so exactly one component of its pair is \<open>None\<close>.
  \<^verbatim>\<open>run_pandasql_query\<close> returns what the evaluator returned with \<open>None\<close> on success,
  and \<open>None\<close> with a message that ends with the text of the exception otherwise, so at
  least one component of its pair is \<open>None\<close>.
\<close>

theorem load_and_query_results:
  "(read_excel file_path = Inr raw \<longrightarrow>
      (\<exists>df. load_data read_excel file_path = (Some df, None)))
   \<and> (read_excel file_path = Inl (FileNotFoundError t) \<longrightarrow>
        load_data read_excel file_path
          = (None, Some (''Error: The file '' @ [CHR 0x27] @ file_path @ [CHR 0x27] @ '' was not found.'')))
   \<and> (read_excel file_path = Inl (OtherException t) \<longrightarrow>
        load_data read_excel file_path = (None, Some (''Error loading Excel file: '' @ t)))
   \<and> ((fst (load_data read_excel file_path) = None) \<noteq> (snd (load_data read_excel file_path) = None))
   \<and> (sqldf query [(''df'', df)] = Inr result \<longrightarrow>
        run_pandasql_query sqldf query df = (result, None))
   \<and> (sqldf query [(''df'', df)] = Inl e \<longrightarrow>
        run_pandasql_query sqldf query df = (None, Some (''Error running SQL query: '' @ exn_text e)))
   \<and> (fst (run_pandasql_query sqldf query df) = None \<or> snd (run_pandasql_query sqldf query df) = None)"
proof -
  have ok: "\<exists>df. load_data read_excel file_path = (Some df, None)"
    if "read_excel file_path = Inr raw" for raw
    using load_data_try_success [of read_excel file_path raw] that by (simp add: load_data_def)
  have nf: "load_data read_excel file_path
      = (None, Some (''Error: The file '' @ [CHR 0x27] @ file_path @ [CHR 0x27] @ '' was not found.''))"
    if "read_excel file_path = Inl (FileNotFoundError t)" for t
    using load_data_try_failure [of read_excel file_path "FileNotFoundError t"] that
    by (simp add: load_data_def)
  have other: "load_data read_excel file_path = (None, Some (''Error loading Excel file: '' @ t))"
    if "read_excel file_path = Inl (OtherException t)" for t
    using load_data_try_failure [of read_excel file_path "OtherException t"] that
    by (simp add: load_data_def)
  have one: "(fst (load_data read_excel file_path) = None) \<noteq> (snd (load_data read_excel file_path) = None)"
  proof (cases "read_excel file_path")
    case (Inl e)
    then show ?thesis
      using nf other by (cases e) auto
  next
    case (Inr raw)
    then show ?thesis
      using ok by fastforce
  qed
  have q: "fst (run_pandasql_query sqldf query df) = None \<or> snd (run_pandasql_query sqldf query df) = None"
    by (simp add: run_pandasql_query_def split: sum.splits)
  show ?thesis
    using ok nf other one q by (simp add: run_pandasql_query_def)
qed

theorem load_and_query_results_witness:
  "demo_read_excel ''sales.xlsx'' = Inr sales_raw
   \<and> (\<exists>df. load_data demo_read_excel ''sales.xlsx'' = (Some df, None))
   \<and> demo_read_excel ''gone.xlsx'' = Inl (FileNotFoundError ''No such file or directory: gone.xlsx'')
   \<and> load_data demo_read_excel ''gone.xlsx'' = (None, Some ''Error: The file 'gone.xlsx' was not found.'')
   \<and> demo_read_excel ''notes.txt'' = Inl (OtherException ''File is not a zip file'')
   \<and> load_data demo_read_excel ''notes.txt'' = (None, Some ''Error loading Excel file: File is not a zip file'')
   \<and> demo_sqldf ''SELECT * FROM df'' [(''df'', Some sales)] = Inr (Some sales)
   \<and> run_pandasql_query demo_sqldf ''SELECT * FROM df'' (Some sales) = (Some sales, None)
   \<and> demo_sqldf '''' [(''df'', Some sales)] = Inl (OtherException ''empty query'')
   \<and> run_pandasql_query demo_sqldf '''' (Some sales) = (None, Some ''Error running SQL query: empty query'')"
proof -
  have a: "demo_read_excel ''sales.xlsx'' = Inr sales_raw"
    and b: "demo_read_excel ''gone.xlsx'' = Inl (FileNotFoundError ''No such file or directory: gone.xlsx'')"
    and c: "demo_read_excel ''notes.txt'' = Inl (OtherException ''File is not a zip file'')"
    by (simp_all add: demo_read_excel_def)
  have d: "demo_sqldf ''SELECT * FROM df'' [(''df'', Some sales)] = Inr (Some sales)"
    and e: "demo_sqldf '''' [(''df'', Some sales)] = Inl (OtherException ''empty query'')"
    by (simp_all add: demo_sqldf_def startswith_def)
  show ?thesis
    using a b c d e
      load_and_query_results [of demo_read_excel "''sales.xlsx''" sales_raw _ demo_sqldf
        "''SELECT * FROM df''" "Some sales" "Some sales"]
      load_and_query_results [of demo_read_excel "''gone.xlsx''" _
        "''No such file or directory: gone.xlsx''" demo_sqldf "''''" "Some sales" _ "OtherException ''empty query''"]
      load_and_query_results [of demo_read_excel "''notes.txt''" _ "''File is not a zip file''"]
    by simp
qed

section \<open>Properties of the request handler\<close>

text \<open>
  C2. In a run that reaches the agent and gets a response, the final text is the
  \<^verbatim>\<open>output\<close> item of a dict, the \<^verbatim>\<open>content\<close> of an object that has one, or the
  rendering of the response. After the heading, the page then shows exactly one of three
  things. For a text equal to one of the two fixed sentences: that text as a warning,
  whatever the evaluator is. Otherwise, for a text whose upper-cased form starts with one
  of the eight keywords: the text as the generated query, and what the evaluator gives
  for that text as the query (its error, nothing, or its table). Otherwise: the text as
  it is. This holds for every upper-casing function.
\<close>

theorem handler_three_cases:
  assumes upload: "uploaded_file req = Some f"
    and loaded: "load_data (lib_read_excel L) f = (Some d, None)"
    and pressed: "button req"
    and asked: "user_question req \<noteq> []"
    and keyset: "truthy (api_key req)"
    and invoked: "lib_agent L (join_comma (columns d)) (python_tools L d) (user_question req) [] = Inr response"
    and reply: "(response = DictResponse items rendering \<and> map_of items ''output'' = Some content)
                \<or> (response = DictResponse items content \<and> map_of items ''output'' = None)
                \<or> response = ContentResponse content
                \<or> response = OtherResponse content"
  shows "(let heading = Markdown (''### '' @ emoji_sparkles @ '' Analysis Result'');
              tail =
                (if content = ''Please specify a column to detect outliers in.''
                    \<or> content = ''Cannot process numerical statistics for categorical columns. Please specify a numerical column.''
                 then [Warning (emoji_warning @ '' '' @ content)]
                 else if \<exists>k \<in> {''SELECT'', ''PRAGMA'', ''CREATE'', ''INSERT'', ''UPDATE'', ''DELETE'', ''DROP'', ''ALTER''}.
                           \<exists>rest. lib_upper L content = k @ rest
                 then [Info ''Generated SQL Query:'', Code content] @
                      (case lib_sqldf L content [(''df'', Some d)] of
                         Inl e \<Rightarrow> [Error (emoji_cross @ '' Error running SQL query: '' @ exn_text e)]
                       | Inr None \<Rightarrow> []
                       | Inr (Some r) \<Rightarrow> [Success (emoji_check @ '' Done!''), Dataframe r])
                 else [Write content])
          in answer L d (user_question req) = (heading # tail, None)
             \<and> main L req = (fst (main L (req\<lparr>button := False\<rparr>)) @ heading # tail, None))"
proof -
  let ?h = "Markdown (''### '' @ emoji_sparkles @ '' Analysis Result'')"
  have content_eq: "final_response_content response = content"
    using reply by (auto simp: final_response_content_def)
  have ans: "answer L d (user_question req) = (?h # dispatch L d content, None)"
    using invoked content_eq by (simp add: answer_def)
  have run: "main L req = (fst (main L (req\<lparr>button := False\<rparr>)) @ ?h # dispatch L d content, None)"
    using main_answers [OF upload loaded pressed asked keyset] ans by simp
  have kw: "startswith_any (lib_upper L content) sql_keywords \<longleftrightarrow>
      (\<exists>k \<in> {''SELECT'', ''PRAGMA'', ''CREATE'', ''INSERT'', ''UPDATE'', ''DELETE'', ''DROP'', ''ALTER''}.
         \<exists>rest. lib_upper L content = k @ rest)"
    unfolding startswith_any_iff sql_keywords_def by simp
  have "dispatch L d content =
      (if content = ''Please specify a column to detect outliers in.''
          \<or> content = ''Cannot process numerical statistics for categorical columns. Please specify a numerical column.''
       then [Warning (emoji_warning @ '' '' @ content)]
       else if \<exists>k \<in> {''SELECT'', ''PRAGMA'', ''CREATE'', ''INSERT'', ''UPDATE'', ''DELETE'', ''DROP'', ''ALTER''}.
                 \<exists>rest. lib_upper L content = k @ rest
       then [Info ''Generated SQL Query:'', Code content] @
            (case lib_sqldf L content [(''df'', Some d)] of
               Inl e \<Rightarrow> [Error (emoji_cross @ '' Error running SQL query: '' @ exn_text e)]
             | Inr None \<Rightarrow> []
             | Inr (Some r) \<Rightarrow> [Success (emoji_check @ '' Done!''), Dataframe r])
       else [Write content])"
    unfolding dispatch_def sql_events kw msg_specify_column_def msg_categorical_def
    by (simp only: if_chain)
  with ans run show ?thesis
    by (simp only: Let_def)
qed

theorem handler_three_cases_witness:
  "main demo (demo_request\<lparr>user_question := ''any outliers?''\<rparr>)
       = (fst (main demo (demo_request\<lparr>user_question := ''any outliers?'', button := False\<rparr>))
          @ [Markdown (''### '' @ emoji_sparkles @ '' Analysis Result''),
             Warning (emoji_warning @ '' Please specify a column to detect outliers in.'')], None)
   \<and> main demo (demo_request\<lparr>user_question := ''show everything''\<rparr>)
       = (fst (main demo (demo_request\<lparr>user_question := ''show everything'', button := False\<rparr>))
          @ [Markdown (''### '' @ emoji_sparkles @ '' Analysis Result''),
             Info ''Generated SQL Query:'', Code ''select * from df'',
             Success (emoji_check @ '' Done!''), Dataframe sales], None)
   \<and> main demo (demo_request\<lparr>user_question := ''how many rows?''\<rparr>)
       = (fst (main demo (demo_request\<lparr>user_question := ''how many rows?'', button := False\<rparr>))
          @ [Markdown (''### '' @ emoji_sparkles @ '' Analysis Result''),
             Write ''There are 5 rows.''], None)"
proof -
  let ?kw = "{''SELECT'', ''PRAGMA'', ''CREATE'', ''INSERT'', ''UPDATE'', ''DELETE'', ''DROP'', ''ALTER''}"
  have u1: "lib_upper demo ''select * from df'' = ''SELECT'' @ '' * FROM DF''"
    and u2: "lib_upper demo ''There are 5 rows.'' = ''THERE ARE 5 ROWS.''"
    unfolding demo_def externals.simps by code_simp+
  have q: "lib_sqldf demo ''select * from df'' [(''df'', Some sales)] = Inr (Some sales)"
    by (simp add: demo_def demo_sqldf_def startswith_def)
  have k1: "\<exists>k \<in> ?kw. \<exists>rest. lib_upper demo ''select * from df'' = k @ rest"
    using u1 by blast
  have k2: "\<not> (\<exists>k \<in> ?kw. \<exists>rest. lib_upper demo ''There are 5 rows.'' = k @ rest)"
    unfolding u2 by simp
  have a: "main demo (demo_request\<lparr>user_question := ''any outliers?''\<rparr>)
       = (fst (main demo (demo_request\<lparr>user_question := ''any outliers?'', button := False\<rparr>))
          @ [Markdown (''### '' @ emoji_sparkles @ '' Analysis Result''),
             Warning (emoji_warning @ '' Please specify a column to detect outliers in.'')], None)"
  proof -
    let ?req = "demo_request\<lparr>user_question := ''any outliers?''\<rparr>"
    let ?items = "[(''input'', ''any outliers?''), (''output'', ''Please specify a column to detect outliers in.'')]"
    have asked: "user_question ?req \<noteq> []" by simp
    have invoked: "lib_agent demo (join_comma (columns sales)) (python_tools demo sales) (user_question ?req) []
        = Inr (DictResponse ?items ''{}'')"
      by (simp add: demo_def demo_agent_def)
    have reply: "map_of ?items ''output'' = Some ''Please specify a column to detect outliers in.''"
      by simp
    show ?thesis
      using handler_three_cases [of ?req "''sales.xlsx''" demo sales "DictResponse ?items ''{}''" ?items
          "''{}''" "''Please specify a column to detect outliers in.''"]
        demo_run_ready asked invoked reply
      by (simp only: Let_def simp_thms if_True) simp
  qed
  have c: "main demo (demo_request\<lparr>user_question := ''show everything''\<rparr>)
       = (fst (main demo (demo_request\<lparr>user_question := ''show everything'', button := False\<rparr>))
          @ [Markdown (''### '' @ emoji_sparkles @ '' Analysis Result''),
             Info ''Generated SQL Query:'', Code ''select * from df'',
             Success (emoji_check @ '' Done!''), Dataframe sales], None)"
  proof -
    let ?req = "demo_request\<lparr>user_question := ''show everything''\<rparr>"
    let ?items = "[(''input'', ''show everything''), (''output'', ''select * from df'')]"
    have asked: "user_question ?req \<noteq> []" by simp
    have invoked: "lib_agent demo (join_comma (columns sales)) (python_tools demo sales) (user_question ?req) []
        = Inr (DictResponse ?items ''{}'')"
      by (simp add: demo_def demo_agent_def)
    have reply: "map_of ?items ''output'' = Some ''select * from df''"
      by simp
    have other: "\<not> (''select * from df'' = ''Please specify a column to detect outliers in.''
        \<or> ''select * from df'' = ''Cannot process numerical statistics for categorical columns. Please specify a numerical column.'')"
      by simp
    show ?thesis
      using handler_three_cases [of ?req "''sales.xlsx''" demo sales "DictResponse ?items ''{}''" ?items
          "''{}''" "''select * from df''"]
        demo_run_ready asked invoked reply
      by (simp only: Let_def simp_thms if_not_P [OF other] if_P [OF k1] q sum.case option.case) simp
  qed
  have d: "main demo (demo_request\<lparr>user_question := ''how many rows?''\<rparr>)
       = (fst (main demo (demo_request\<lparr>user_question := ''how many rows?'', button := False\<rparr>))
          @ [Markdown (''### '' @ emoji_sparkles @ '' Analysis Result''),
             Write ''There are 5 rows.''], None)"
  proof -
    let ?req = "demo_request\<lparr>user_question := ''how many rows?''\<rparr>"
    have asked: "user_question ?req \<noteq> []" by simp
    have invoked: "lib_agent demo (join_comma (columns sales)) (python_tools demo sales) (user_question ?req) []
        = Inr (OtherResponse ''There are 5 rows.'')"
      by (simp add: demo_def demo_agent_def)
    have other: "\<not> (''There are 5 rows.'' = ''Please specify a column to detect outliers in.''
        \<or> ''There are 5 rows.'' = ''Cannot process numerical statistics for categorical columns. Please specify a numerical column.'')"
      by simp
    show ?thesis
      using handler_three_cases [of ?req "''sales.xlsx''" demo sales "OtherResponse ''There are 5 rows.''" "[]"
          "[]" "''There are 5 rows.''"]
        demo_run_ready asked invoked
      by (simp only: Let_def simp_thms if_not_P [OF other] if_not_P [OF k2])
  qed
  show ?thesis
    using a c d by (simp only: simp_thms)
qed

text \<open>
  C7. A run of the page consults the query evaluator only at environments that bind
  the single name \<^verbatim>\<open>df\<close> to the table loaded from the uploaded file: replacing the
  evaluator by any other that agrees with it on these environments changes nothing of
  what the page shows.
\<close>

theorem query_sees_only_df:
  assumes "\<And>f d query. uploaded_file req = Some f \<Longrightarrow> load_data (lib_read_excel L) f = (Some d, None)
             \<Longrightarrow> sq query [(''df'', Some d)] = lib_sqldf L query [(''df'', Some d)]"
  shows "main (L\<lparr>lib_sqldf := sq\<rparr>) req = main L req"
proof (rule main_cong)
  show "lib_read_excel (L\<lparr>lib_sqldf := sq\<rparr>) = lib_read_excel L" by simp
next
  fix f d q
  assume "uploaded_file req = Some f" and "load_data (lib_read_excel L) f = (Some d, None)"
  then have "sq query [(''df'', Some d)] = lib_sqldf L query [(''df'', Some d)]" for query
    by (rule assms)
  then show "answer (L\<lparr>lib_sqldf := sq\<rparr>) d q = answer L d q"
    by (rule answer_sqldf)
qed

theorem query_sees_only_df_witness:
  "main (demo\<lparr>lib_sqldf := demo_sqldf_strict\<rparr>) demo_request = main demo demo_request"
proof (rule query_sees_only_df)
  fix f d query
  show "demo_sqldf_strict query [(''df'', Some d)] = lib_sqldf demo query [(''df'', Some d)]"
    by (simp add: demo_sqldf_strict_def demo_def)
qed

end
